theory Spec2Isabelle
  imports Complex_Main "HOL-Library.AList"
begin

section \<open>Parameter files and the parameter plugin of mavros (param.py)\<close>

text \<open>
  The development follows \<^verbatim>\<open>mavros/param.py\<close> function by function. Python exceptions
  are values of the type \<open>error\<close>; a function that can raise returns \<open>error + 'a\<close> with the
  exception on the left.
\<close>

datatype error =
    ValueError
  | IndexError
  | AttributeError
  | TypeError
  | SyntaxError
  | AssertionError
  | KeyError
  | CsvError
  | ServiceWaitTimeout

subsection \<open>Values and parameters\<close>

text \<open>
  A Python float is kept as the exact decimal value that was written (the rounding of that
  value to a binary64 is not part of the model), or as one of the special values. The sign
  of a zero is not kept.
\<close>

datatype pyfloat = FVal rat | FInf bool | FNan

text \<open>The kinds of value an \<^verbatim>\<open>rclpy.parameter.Parameter\<close> can hold.\<close>

datatype pvalue =
    PNone
  | PBool bool
  | PInt int
  | PFloat pyfloat
  | PStr string
  | PArray "pvalue list"

record Parameter =
  name :: string
  "value" :: pvalue

subsection \<open>The string operations of Python that the parsers use\<close>

text \<open>
  Strings are restricted to code points below 256. \<open>py_isspace\<close> is \<^verbatim>\<open>str.isspace\<close> on
  one character of that range; \<^verbatim>\<open>str.strip\<close>, \<^verbatim>\<open>int\<close> and \<^verbatim>\<open>float\<close> all remove these
  characters at both ends.
\<close>

definition py_isspace :: "char \<Rightarrow> bool" where
  "py_isspace c = ((of_char c :: nat) \<in> {9, 10, 11, 12, 13, 28, 29, 30, 31, 32, 133, 160})"

definition py_strip :: "string \<Rightarrow> string" where
  "py_strip s = rev (dropWhile py_isspace (rev (dropWhile py_isspace s)))"

definition startswith :: "string \<Rightarrow> string \<Rightarrow> bool" where
  "startswith s p = (take (length p) s = p)"

definition digit_val :: "char \<Rightarrow> nat option" where
  "digit_val c = map_of
     [(CHR ''0'', 0), (CHR ''1'', 1), (CHR ''2'', 2), (CHR ''3'', 3), (CHR ''4'', 4),
      (CHR ''5'', 5), (CHR ''6'', 6), (CHR ''7'', 7), (CHR ''8'', 8), (CHR ''9'', 9)] c"

definition is_digit :: "char \<Rightarrow> bool" where
  "is_digit c = (digit_val c \<noteq> None)"

text \<open>
  A run of decimal digits in which single underscores may stand between two digits
  (\<^verbatim>\<open>1_000\<close>); the flag says whether the previous character was a digit.
\<close>

fun digit_seq :: "nat \<Rightarrow> bool \<Rightarrow> string \<Rightarrow> nat option" where
  "digit_seq acc prev [] = (if prev then Some acc else None)"
| "digit_seq acc prev (c # cs) =
     (if c = CHR ''_'' then (if prev then digit_seq acc False cs else None)
      else case digit_val c of
             None \<Rightarrow> None
           | Some d \<Rightarrow> digit_seq (10 * acc + d) True cs)"

text \<open>
  \<^verbatim>\<open>int(x)\<close> for a string and base 10: surrounding whitespace, an optional sign, digits.
  The limit on the number of digits that newer interpreters apply is not modelled.
\<close>

definition py_int :: "string \<Rightarrow> error + int" where
  "py_int s =
     (case py_strip s of
        [] \<Rightarrow> Inl ValueError
      | c # cs \<Rightarrow>
          if c = CHR ''-'' then
            (case digit_seq 0 False cs of None \<Rightarrow> Inl ValueError | Some n \<Rightarrow> Inr (- int n))
          else if c = CHR ''+'' then
            (case digit_seq 0 False cs of None \<Rightarrow> Inl ValueError | Some n \<Rightarrow> Inr (int n))
          else
            (case digit_seq 0 False (c # cs) of None \<Rightarrow> Inl ValueError | Some n \<Rightarrow> Inr (int n)))"

text \<open>
  \<^verbatim>\<open>float(x)\<close> for a string. Underscores are accepted between two digits only and are
  removed first; then comes an optional sign and either \<^verbatim>\<open>inf\<close>, \<^verbatim>\<open>infinity\<close>, \<^verbatim>\<open>nan\<close>
  in any case, or a decimal number with an optional exponent.
\<close>

fun drop_underscores :: "bool \<Rightarrow> string \<Rightarrow> string option" where
  "drop_underscores prev [] = Some []"
| "drop_underscores prev (c # cs) =
     (if c = CHR ''_'' then
        (case cs of
           [] \<Rightarrow> None
         | d # _ \<Rightarrow> if prev \<and> is_digit d then drop_underscores False cs else None)
      else map_option ((#) c) (drop_underscores (is_digit c) cs))"

definition to_lower :: "char \<Rightarrow> char" where
  "to_lower c =
     (if (65::nat) \<le> of_char c \<and> of_char c \<le> (90::nat) then char_of (of_char c + (32::nat)) else c)"

fun digits_nat :: "nat \<Rightarrow> string \<Rightarrow> nat" where
  "digits_nat acc [] = acc"
| "digits_nat acc (c # cs) = digits_nat (10 * acc + (case digit_val c of None \<Rightarrow> 0 | Some d \<Rightarrow> d)) cs"

definition parse_exponent :: "string \<Rightarrow> int option" where
  "parse_exponent s =
     (case s of
        [] \<Rightarrow> Some 0
      | e # r \<Rightarrow>
          if e = CHR ''e'' \<or> e = CHR ''E'' then
            (case r of
               [] \<Rightarrow> None
             | c # ds \<Rightarrow>
                 if c = CHR ''-'' then
                   (if ds \<noteq> [] \<and> list_all is_digit ds then Some (- int (digits_nat 0 ds)) else None)
                 else if c = CHR ''+'' then
                   (if ds \<noteq> [] \<and> list_all is_digit ds then Some (int (digits_nat 0 ds)) else None)
                 else
                   (if list_all is_digit r then Some (int (digits_nat 0 r)) else None))
          else None)"

definition parse_decimal :: "string \<Rightarrow> rat option" where
  "parse_decimal s =
     (let ip = takeWhile is_digit s;
          r1 = dropWhile is_digit s;
          fp = (case r1 of [] \<Rightarrow> [] | c # r \<Rightarrow> if c = CHR ''.'' then takeWhile is_digit r else []);
          r2 = (case r1 of [] \<Rightarrow> [] | c # r \<Rightarrow> if c = CHR ''.'' then dropWhile is_digit r else r1)
      in if ip = [] \<and> fp = [] then None
         else case parse_exponent r2 of
                None \<Rightarrow> None
              | Some e \<Rightarrow>
                  Some (of_nat (digits_nat 0 (ip @ fp)) / 10 ^ length fp
                        * (if 0 \<le> e then 10 ^ nat e else 1 / 10 ^ nat (- e))))"

definition parse_unsigned_float :: "bool \<Rightarrow> string \<Rightarrow> error + pyfloat" where
  "parse_unsigned_float neg s =
     (if map to_lower s = ''inf'' \<or> map to_lower s = ''infinity'' then Inr (FInf neg)
      else if map to_lower s = ''nan'' then Inr FNan
      else case parse_decimal s of
             None \<Rightarrow> Inl ValueError
           | Some q \<Rightarrow> Inr (FVal (if neg then - q else q)))"

definition py_float :: "string \<Rightarrow> error + pyfloat" where
  "py_float s =
     (case drop_underscores False (py_strip s) of
        None \<Rightarrow> Inl ValueError
      | Some t \<Rightarrow>
          (case t of
             [] \<Rightarrow> Inl ValueError
           | c # cs \<Rightarrow>
               if c = CHR ''-'' then parse_unsigned_float True cs
               else if c = CHR ''+'' then parse_unsigned_float False cs
               else parse_unsigned_float False t))"

text \<open>
  The conversion both parsers define:
  \<^verbatim>\<open>to_numeric = lambda x: float(x) if '.' in x else int(x)\<close>
\<close>

definition to_numeric :: "string \<Rightarrow> error + pvalue" where
  "to_numeric x =
     (if CHR ''.'' \<in> set x then map_sum id PFloat (py_float x) else map_sum id PInt (py_int x))"

subsection \<open>Parameter files\<close>

record datetime =
  year :: nat
  month :: nat
  day :: nat
  hour :: nat
  minute :: nat
  second :: nat

text \<open>
  \<^verbatim>\<open>class ParamFile\<close>: the attributes and their class-level defaults. A Python dict keeps
  its keys in insertion order, so it is an association list with distinct keys that is
  changed through \<open>AList.update\<close> only (an existing key keeps its place, a new key goes to
  the end).
\<close>

type_synonym ('k, 'v) dict = "('k \<times> 'v) list"

record ParamFile =
  parameters :: "(string, Parameter) dict option"
  stamp :: "datetime option"
  tgt_system :: int
  tgt_component :: int

definition ParamFile_init :: ParamFile where
  "ParamFile_init = \<lparr>parameters = None, stamp = None, tgt_system = 1, tgt_component = 1\<rparr>"

text \<open>The three parsers; \<^verbatim>\<open>MissionPlannerParam\<close> inherits everything but the dialect.\<close>

datatype variant = MavProxyParam | MissionPlannerParam | QGroundControlParam

record dialect =
  delimiter :: char
  lineterminator :: string

fun CSVDialect :: "variant \<Rightarrow> dialect" where
  "CSVDialect MavProxyParam = \<lparr>delimiter = CHR '' '', lineterminator = [CHR 13, CHR 10]\<rparr>"
| "CSVDialect MissionPlannerParam = \<lparr>delimiter = CHR '','', lineterminator = [CHR 13, CHR 10]\<rparr>"
| "CSVDialect QGroundControlParam = \<lparr>delimiter = CHR 9, lineterminator = [CHR 10]\<rparr>"

text \<open>
  \<^verbatim>\<open>csv.reader(file_, self.CSVDialect)\<close> yields one list of fields for every line of the
  file; a blank line yields the empty list. The parsers are functions of these rows. The
  generator \<^verbatim>\<open>_parse_param_file\<close> is consumed to its end by \<^verbatim>\<open>load\<close>, so it is modelled
  by the list of the parameters it yields, or by the exception that ends it.
\<close>

type_synonym row = "string list"

fun MavProxyParam_parse_param_file :: "row list \<Rightarrow> error + Parameter list" where
  "MavProxyParam_parse_param_file [] = Inr []"
| "MavProxyParam_parse_param_file (data # rest) =
     (case data of
        [] \<Rightarrow> Inl IndexError
      | d0 # _ \<Rightarrow>
          if startswith d0 ''#'' then MavProxyParam_parse_param_file rest
          else if length data \<noteq> 2 then Inl ValueError
          else
            (case to_numeric (data ! 1) of
               Inl e \<Rightarrow> Inl e
             | Inr v \<Rightarrow>
                 (case MavProxyParam_parse_param_file rest of
                    Inl e \<Rightarrow> Inl e
                  | Inr ps \<Rightarrow> Inr (\<lparr>name = py_strip d0, value = v\<rparr> # ps))))"

fun QGroundControlParam_parse_param_file :: "row list \<Rightarrow> error + Parameter list" where
  "QGroundControlParam_parse_param_file [] = Inr []"
| "QGroundControlParam_parse_param_file (data # rest) =
     (case data of
        [] \<Rightarrow> Inl IndexError
      | d0 # _ \<Rightarrow>
          if startswith d0 ''#'' then QGroundControlParam_parse_param_file rest
          else if length data \<noteq> 5 then Inl ValueError
          else
            (case to_numeric (data ! 3) of
               Inl e \<Rightarrow> Inl e
             | Inr v \<Rightarrow>
                 (case QGroundControlParam_parse_param_file rest of
                    Inl e \<Rightarrow> Inl e
                  | Inr ps \<Rightarrow> Inr (\<lparr>name = py_strip (data ! 2), value = v\<rparr> # ps))))"

fun parse_param_file :: "variant \<Rightarrow> row list \<Rightarrow> error + Parameter list" where
  "parse_param_file MavProxyParam rows = MavProxyParam_parse_param_file rows"
| "parse_param_file MissionPlannerParam rows = MavProxyParam_parse_param_file rows"
| "parse_param_file QGroundControlParam rows = QGroundControlParam_parse_param_file rows"

text \<open>The dict comprehension \<^verbatim>\<open>{p.name: p for p in ...}\<close>.\<close>

definition dict_by_name :: "Parameter list \<Rightarrow> (string, Parameter) dict" where
  "dict_by_name ps = fold (\<lambda>p d. AList.update (name p) p d) ps []"

text \<open>
  \<^verbatim>\<open>load\<close> returns the outcome and the file object after the call. The assignment to
  \<^verbatim>\<open>self.parameters\<close> happens only when the comprehension has finished.
\<close>

definition load :: "variant \<Rightarrow> ParamFile \<Rightarrow> row list \<Rightarrow> (error + unit) \<times> ParamFile" where
  "load v self rows =
     (case parse_param_file v rows of
        Inl e \<Rightarrow> (Inl e, self)
      | Inr ps \<Rightarrow> (Inr (), self\<lparr>parameters := Some (dict_by_name ps)\<rparr>))"

text \<open>Vocabulary for the rows of a file, per variant.\<close>

fun field_count :: "variant \<Rightarrow> nat" where
  "field_count MavProxyParam = 2"
| "field_count MissionPlannerParam = 2"
| "field_count QGroundControlParam = 5"

fun name_field :: "variant \<Rightarrow> nat" where
  "name_field MavProxyParam = 0"
| "name_field MissionPlannerParam = 0"
| "name_field QGroundControlParam = 2"

fun value_field :: "variant \<Rightarrow> nat" where
  "value_field MavProxyParam = 1"
| "value_field MissionPlannerParam = 1"
| "value_field QGroundControlParam = 3"

definition comment_row :: "row \<Rightarrow> bool" where
  "comment_row data = (case data of [] \<Rightarrow> False | d0 # _ \<Rightarrow> startswith d0 ''#'')"

definition valid_row :: "variant \<Rightarrow> row \<Rightarrow> bool" where
  "valid_row v data =
     (data \<noteq> [] \<and> \<not> comment_row data \<and> length data = field_count v
      \<and> \<not> isl (to_numeric (data ! value_field v)))"

definition row_parameter :: "variant \<Rightarrow> row \<Rightarrow> Parameter" where
  "row_parameter v data =
     \<lparr>name = py_strip (data ! name_field v), value = projr (to_numeric (data ! value_field v))\<rparr>"

text \<open>The parameters of the rows that are not comments, in file order.\<close>

definition data_rows :: "variant \<Rightarrow> row list \<Rightarrow> Parameter list" where
  "data_rows v rows = map (row_parameter v) (filter (\<lambda>data. \<not> comment_row data) rows)"

text \<open>One step of the dict comprehension.\<close>

definition put :: "Parameter \<Rightarrow> (string, Parameter) dict \<Rightarrow> (string, Parameter) dict" where
  "put p d = AList.update (name p) p d"

subsection \<open>Writing parameter files\<close>

text \<open>\<^verbatim>\<open>str\<close> of an integer, and \<^verbatim>\<open>strftime("%d.%m.%Y %T")\<close> for a year of four digits.\<close>

fun str_nat :: "nat \<Rightarrow> string" where
  "str_nat n =
     (if n < 10 then [''0123456789'' ! n]
      else str_nat (n div 10) @ [''0123456789'' ! (n mod 10)])"

declare str_nat.simps [simp del]

definition str_int :: "int \<Rightarrow> string" where
  "str_int i = (if i < 0 then CHR ''-'' # str_nat (nat (- i)) else str_nat (nat i))"

definition pad2 :: "nat \<Rightarrow> string" where
  "pad2 n = (if n < 10 then CHR ''0'' # str_nat n else str_nat n)"

definition strftime :: "datetime \<Rightarrow> string" where
  "strftime t =
     pad2 (day t) @ ''.'' @ pad2 (month t) @ ''.'' @ str_nat (year t) @ '' ''
     @ pad2 (hour t) @ '':'' @ pad2 (minute t) @ '':'' @ pad2 (second t)"

text \<open>
  What \<^verbatim>\<open>csv.writer\<close> writes for one field: nothing for \<^verbatim>\<open>None\<close>, a string as it is,
  \<^verbatim>\<open>str(x)\<close> for everything else. The text of a float and of an array is left to the
  parameter \<open>repr\<close>.
\<close>

fun field_text :: "(pvalue \<Rightarrow> string) \<Rightarrow> pvalue \<Rightarrow> string" where
  "field_text repr PNone = []"
| "field_text repr (PBool b) = (if b then ''True'' else ''False'')"
| "field_text repr (PInt i) = str_int i"
| "field_text repr (PStr s) = s"
| "field_text repr v = repr v"

text \<open>
  \<^verbatim>\<open>writer.writerow(row)\<close> with \<^verbatim>\<open>QUOTE_NONE\<close> and no escape character: the fields joined
  by the delimiter and ended by the line terminator are appended to the file; a field that
  holds the delimiter or a character of the line terminator cannot be written, nor can a
  row made of one empty field.
\<close>

fun join :: "string \<Rightarrow> string list \<Rightarrow> string" where
  "join sep [] = []"
| "join sep [f] = f"
| "join sep (f # g # fs) = f @ sep @ join sep (g # fs)"

definition writerow ::
  "dialect \<Rightarrow> (pvalue \<Rightarrow> string) \<Rightarrow> string \<Rightarrow> pvalue list \<Rightarrow> error + string" where
  "writerow d repr fileobj row =
     (let fields = map (field_text repr) row in
      if (\<exists>f \<in> set fields. \<exists>c \<in> set f. c = delimiter d \<or> c \<in> set (lineterminator d))
         \<or> fields = [[]] then Inl CsvError
      else Inr (fileobj @ join [delimiter d] fields @ lineterminator d))"

text \<open>
  \<^verbatim>\<open>file_.writerow(...)\<close>: the argument \<^verbatim>\<open>file_\<close> is a \<^verbatim>\<open>typing.TextIO\<close>, which has \<^verbatim>\<open>write\<close> and
  \<^verbatim>\<open>writelines\<close> but no \<^verbatim>\<open>writerow\<close>; the attribute lookup raises.
\<close>

definition TextIO_writerow :: "string \<Rightarrow> pvalue list \<Rightarrow> error + string" where
  "TextIO_writerow fileobj row = Inl AttributeError"

text \<open>
  \<^verbatim>\<open>for p in self.parameters\<close> iterates over a dict, which yields its keys: the loop
  variable is a string. The loop bodies read \<^verbatim>\<open>p.name\<close> and \<^verbatim>\<open>p.value\<close>.
\<close>

datatype pyobj = OStr string | OParameter Parameter

fun getattr_name :: "pyobj \<Rightarrow> error + string" where
  "getattr_name (OStr s) = Inl AttributeError"
| "getattr_name (OParameter p) = Inr (name p)"

fun getattr_value :: "pyobj \<Rightarrow> error + pvalue" where
  "getattr_value (OStr s) = Inl AttributeError"
| "getattr_value (OParameter p) = Inr (value p)"

definition iter_dict :: "(string, Parameter) dict \<Rightarrow> pyobj list" where
  "iter_dict d = map (\<lambda>kv. OStr (fst kv)) d"

definition set_stamp :: "datetime \<Rightarrow> ParamFile \<Rightarrow> ParamFile" where
  "set_stamp now self = (if stamp self = None then self\<lparr>stamp := Some now\<rparr> else self)"

text \<open>\<^verbatim>\<open>MavProxyParam.save\<close>, inherited by \<^verbatim>\<open>MissionPlannerParam\<close>; the loop first.\<close>

fun MavProxyParam_save_rows ::
  "dialect \<Rightarrow> (pvalue \<Rightarrow> string) \<Rightarrow> string \<Rightarrow> pyobj list \<Rightarrow> (error + unit) \<times> string" where
  "MavProxyParam_save_rows d repr fileobj [] = (Inr (), fileobj)"
| "MavProxyParam_save_rows d repr fileobj (p # ps) =
     (case getattr_name p of
        Inl e \<Rightarrow> (Inl e, fileobj)
      | Inr n \<Rightarrow>
          (case getattr_value p of
             Inl e \<Rightarrow> (Inl e, fileobj)
           | Inr v \<Rightarrow>
               (case writerow d repr fileobj [PStr n, v] of
                  Inl e \<Rightarrow> (Inl e, fileobj)
                | Inr file' \<Rightarrow> MavProxyParam_save_rows d repr file' ps)))"

definition MavProxyParam_save ::
  "variant \<Rightarrow> datetime \<Rightarrow> (pvalue \<Rightarrow> string) \<Rightarrow> ParamFile \<Rightarrow> string
   \<Rightarrow> (error + unit) \<times> ParamFile \<times> string" where
  "MavProxyParam_save v now repr self fileobj =
     (let self' = set_stamp now self in
      case TextIO_writerow fileobj [PStr (''#NOTE: '' @ strftime (the (stamp self')))] of
        Inl e \<Rightarrow> (Inl e, self', fileobj)
      | Inr file1 \<Rightarrow>
          (case parameters self' of
             None \<Rightarrow> (Inl TypeError, self', file1)
           | Some d \<Rightarrow>
               (case MavProxyParam_save_rows (CSVDialect v) repr file1 (iter_dict d) of
                  (r, file2) \<Rightarrow> (r, self', file2))))"

text \<open>
  \<^verbatim>\<open>to_type\<close> of \<^verbatim>\<open>QGroundControlParam.save\<close>. A \<^verbatim>\<open>bool\<close> is an instance of \<^verbatim>\<open>int\<close>.
  In the last branch the message of the \<^verbatim>\<open>ValueError\<close> is the f-string
  \<^verbatim>\<open>f"unknown type: {type(x):r}"\<close>; formatting a type object with the format
  specification \<^verbatim>\<open>r\<close> raises \<^verbatim>\<open>TypeError\<close>, before the \<^verbatim>\<open>ValueError\<close> is built.
\<close>

fun to_type :: "pvalue \<Rightarrow> error + int" where
  "to_type (PFloat f) = Inr 9"
| "to_type (PInt i) = Inr 6"
| "to_type (PBool b) = Inr 6"
| "to_type v = Inl TypeError"

definition QGroundControlParam_data_row :: "ParamFile \<Rightarrow> pyobj \<Rightarrow> error + pvalue list" where
  "QGroundControlParam_data_row self p =
     (case getattr_name p of
        Inl e \<Rightarrow> Inl e
      | Inr n \<Rightarrow>
          (case getattr_value p of
             Inl e \<Rightarrow> Inl e
           | Inr v \<Rightarrow>
               (case to_type v of
                  Inl e \<Rightarrow> Inl e
                | Inr t \<Rightarrow>
                    Inr [PInt (tgt_system self), PInt (tgt_component self), PStr n, v, PInt t])))"

text \<open>
  The loop of \<^verbatim>\<open>QGroundControlParam.save\<close>. A row that was written stays in the file
  when a later row raises, so the file is returned in both cases.
\<close>

fun QGroundControlParam_save_rows ::
  "(pvalue \<Rightarrow> string) \<Rightarrow> ParamFile \<Rightarrow> string \<Rightarrow> pyobj list \<Rightarrow> (error + unit) \<times> string" where
  "QGroundControlParam_save_rows repr self fileobj [] = (Inr (), fileobj)"
| "QGroundControlParam_save_rows repr self fileobj (p # ps) =
     (case QGroundControlParam_data_row self p of
        Inl e \<Rightarrow> (Inl e, fileobj)
      | Inr row \<Rightarrow>
          (case writerow (CSVDialect QGroundControlParam) repr fileobj row of
             Inl e \<Rightarrow> (Inl e, fileobj)
           | Inr file' \<Rightarrow> QGroundControlParam_save_rows repr self file' ps))"

definition QGroundControlParam_header :: "ParamFile \<Rightarrow> pvalue list list" where
  "QGroundControlParam_header self =
     [[PStr (''# NOTE: '' @ strftime (the (stamp self)))],
      [PStr (''# Onboard parameters saved by mavparam for ('' @ str_int (tgt_system self)
             @ ''.'' @ str_int (tgt_component self) @ '')'')],
      [PStr ''# MAV ID'', PStr ''COMPONENT ID'', PStr ''PARAM NAME'', PStr ''VALUE'',
       PStr ''(TYPE)'']]"

fun write_rows ::
  "dialect \<Rightarrow> (pvalue \<Rightarrow> string) \<Rightarrow> string \<Rightarrow> pvalue list list \<Rightarrow> (error + unit) \<times> string" where
  "write_rows d repr fileobj [] = (Inr (), fileobj)"
| "write_rows d repr fileobj (row # rows) =
     (case writerow d repr fileobj row of
        Inl e \<Rightarrow> (Inl e, fileobj)
      | Inr file' \<Rightarrow> write_rows d repr file' rows)"

definition QGroundControlParam_save ::
  "datetime \<Rightarrow> (pvalue \<Rightarrow> string) \<Rightarrow> ParamFile \<Rightarrow> string
   \<Rightarrow> (error + unit) \<times> ParamFile \<times> string" where
  "QGroundControlParam_save now repr self fileobj =
     (let self' = set_stamp now self in
      case write_rows (CSVDialect QGroundControlParam) repr fileobj
             (QGroundControlParam_header self') of
        (Inl e, file1) \<Rightarrow> (Inl e, self', file1)
      | (Inr u, file1) \<Rightarrow>
          (case parameters self' of
             None \<Rightarrow> (Inl TypeError, self', file1)
           | Some d \<Rightarrow>
               (case QGroundControlParam_save_rows repr self' file1 (iter_dict d) of
                  (r, file2) \<Rightarrow> (r, self', file2))))"

subsection \<open>Remote calls\<close>

text \<open>
  An \<^verbatim>\<open>rclpy\<close> client is given by what the code asks of it: \<^verbatim>\<open>wait_for_service\<close> tells
  whether the service became available within the time given in seconds, and \<open>call\<close> is
  \<^verbatim>\<open>call_async\<close> followed by \<^verbatim>\<open>spin_until_future_complete\<close> and \<^verbatim>\<open>future.result()\<close>:
  the response, or \<open>None\<close> when no response ever arrives, in which case the caller does
  not return. A helper returns its outcome (\<open>None\<close> when it does not return) and the
  list of the requests it has sent. Log messages are left out.
\<close>

record ('req, 'resp) client =
  wait_for_service :: "rat \<Rightarrow> bool"
  call :: "'req \<Rightarrow> 'resp option"

text \<open>A node, seen through \<^verbatim>\<open>node.create_client(ServiceType, service_name)\<close>.\<close>

type_synonym ('req, 'resp) node = "string \<Rightarrow> ('req, 'resp) client"

definition TIMEOUT :: rat where
  "TIMEOUT = 5"

text \<open>The messages of \<^verbatim>\<open>rcl_interfaces\<close>, with the fields the code reads and writes.\<close>

record ParameterMsg =
  msg_name :: string
  msg_value :: pvalue

record SetParametersResult =
  successful :: bool
  reason :: string

record ListParametersResult =
  names :: "string list"

record ListParameters_Request =
  prefixes :: "string list"

record ListParameters_Response =
  result :: ListParametersResult

record GetParameters_Request =
  req_names :: "string list"

record GetParameters_Response =
  "values" :: "pvalue list"

record SetParameters_Request =
  req_parameters :: "ParameterMsg list"

record SetParameters_Response =
  results :: "SetParametersResult list"

record ParamPull_Request =
  force_pull :: bool


definition to_parameter_msg :: "Parameter \<Rightarrow> ParameterMsg" where
  "to_parameter_msg p = \<lparr>msg_name = name p, msg_value = value p\<rparr>"



text \<open>\<^verbatim>\<open>dict(zip(keys, values))\<close>.\<close>

definition dict_zip :: "'k list \<Rightarrow> 'v list \<Rightarrow> ('k, 'v) dict" where
  "dict_zip ks vs = fold (\<lambda>kv d. AList.update (fst kv) (snd kv) d) (zip ks vs) []"

text \<open>
  The first step of the three helpers:
  \<^verbatim>\<open>if client is None: assert node_name is not None; client = node.create_client(...)\<close>
\<close>

definition resolve_client ::
  "('req, 'resp) node \<Rightarrow> string option \<Rightarrow> ('req, 'resp) client option \<Rightarrow> string
   \<Rightarrow> error + ('req, 'resp) client" where
  "resolve_client node node_name client service =
     (case client of
        Some c \<Rightarrow> Inr c
      | None \<Rightarrow>
          (case node_name of
             None \<Rightarrow> Inl AssertionError
           | Some nm \<Rightarrow> Inr (node (nm @ ''/'' @ service))))"

text \<open>
  The helpers are module-level functions whose first parameter is named \<^verbatim>\<open>self\<close>; it is
  an ordinary positional parameter that the body never reads.
\<close>

definition call_list_parameters ::
  "'self \<Rightarrow> (ListParameters_Request, ListParameters_Response) node \<Rightarrow> string option
   \<Rightarrow> (ListParameters_Request, ListParameters_Response) client option \<Rightarrow> string list
   \<Rightarrow> (error + string list) option \<times> ListParameters_Request list" where
  "call_list_parameters self node node_name client prefixes' =
     (case resolve_client node node_name client ''list_parameters'' of
        Inl e \<Rightarrow> (Some (Inl e), [])
      | Inr c \<Rightarrow>
          if \<not> wait_for_service c TIMEOUT then (Some (Inl ServiceWaitTimeout), [])
          else
            (let req = \<lparr>prefixes = prefixes'\<rparr> in
             (map_option (\<lambda>resp. Inr (names (result resp))) (call c req), [req])))"

definition call_get_parameters ::
  "'self \<Rightarrow> (GetParameters_Request, GetParameters_Response) node \<Rightarrow> string option
   \<Rightarrow> (GetParameters_Request, GetParameters_Response) client option \<Rightarrow> string list
   \<Rightarrow> (error + (string, pvalue) dict) option \<times> GetParameters_Request list" where
  "call_get_parameters self node node_name client names' =
     (case resolve_client node node_name client ''get_parameters'' of
        Inl e \<Rightarrow> (Some (Inl e), [])
      | Inr c \<Rightarrow>
          if \<not> wait_for_service c TIMEOUT then (Some (Inl ServiceWaitTimeout), [])
          else
            (let req = \<lparr>req_names = names'\<rparr> in
             (map_option (\<lambda>resp. Inr (dict_zip names' (values resp))) (call c req), [req])))"

definition call_set_parameters ::
  "'self \<Rightarrow> (SetParameters_Request, SetParameters_Response) node \<Rightarrow> string option
   \<Rightarrow> (SetParameters_Request, SetParameters_Response) client option \<Rightarrow> Parameter list
   \<Rightarrow> (error + (string, SetParametersResult) dict) option \<times> SetParameters_Request list" where
  "call_set_parameters self node node_name client parameters' =
     (case resolve_client node node_name client ''set_parameters'' of
        Inl e \<Rightarrow> (Some (Inl e), [])
      | Inr c \<Rightarrow>
          if \<not> wait_for_service c TIMEOUT then (Some (Inl ServiceWaitTimeout), [])
          else
            (let req = \<lparr>req_parameters = map to_parameter_msg parameters'\<rparr> in
             (map_option (\<lambda>resp. Inr (dict_zip (map name parameters') (results resp)))
                (call c req), [req])))"

subsection \<open>The parameter plugin\<close>

text \<open>
  \<^verbatim>\<open>class ParamPlugin\<close>: \<^verbatim>\<open>timeout_sec\<close> and the cache \<^verbatim>\<open>_parameters\<close>, which is
  \<^verbatim>\<open>None\<close> until the first use and then a \<^verbatim>\<open>ParamDict\<close>, given here by its \<^verbatim>\<open>data\<close>.
\<close>

record ParamPlugin =
  timeout_sec :: rat
  priv_parameters :: "(string, Parameter) dict option"

definition ParamPlugin_init :: ParamPlugin where
  "ParamPlugin_init = \<lparr>timeout_sec = 5, priv_parameters = None\<rparr>"

text \<open>
  \<^verbatim>\<open>call_pull\<close> returns the response of the service. The type of the response is declared
  outside this file and is a type parameter. The plugin after the call is returned too.
\<close>

definition call_pull ::
  "ParamPlugin \<Rightarrow> (ParamPull_Request, 'resp) client \<Rightarrow> bool
   \<Rightarrow> (error + 'resp) option \<times> ParamPlugin \<times> ParamPull_Request list" where
  "call_pull self pull force_pull' =
     (if \<not> wait_for_service pull (timeout_sec self) then (Some (Inl ServiceWaitTimeout), self, [])
      else
        (let req = \<lparr>force_pull = force_pull'\<rparr> in
         (map_option Inr (call pull req), self, [req])))"

text \<open>
  The arguments of a call as they are written at the call site, in order. Python rejects a
  positional argument that follows a keyword argument. \<^verbatim>\<open>call_set_parameters\<close> has the
  signature \<^verbatim>\<open>(self, *, node, node_name=None, client=None, parameters=[])\<close>: at most one
  positional argument, \<^verbatim>\<open>self\<close> and \<^verbatim>\<open>node\<close> required.
\<close>

datatype 'a arg = Pos 'a | Kw string 'a

datatype argval =
    ANone
  | AStr string
  | ANode "(SetParameters_Request, SetParameters_Response) node"
  | AClient "(SetParameters_Request, SetParameters_Response) client"
  | AParameters "Parameter list"

fun positional_follows_keyword :: "bool \<Rightarrow> 'a arg list \<Rightarrow> bool" where
  "positional_follows_keyword seen [] = False"
| "positional_follows_keyword seen (Pos a # as) = (seen \<or> positional_follows_keyword seen as)"
| "positional_follows_keyword seen (Kw k a # as) = positional_follows_keyword True as"

fun positional_args :: "'a arg list \<Rightarrow> 'a list" where
  "positional_args [] = []"
| "positional_args (Pos a # as) = a # positional_args as"
| "positional_args (Kw k a # as) = positional_args as"

fun keyword_args :: "'a arg list \<Rightarrow> (string \<times> 'a) list" where
  "keyword_args [] = []"
| "keyword_args (Pos a # as) = keyword_args as"
| "keyword_args (Kw k a # as) = (k, a) # keyword_args as"

text \<open>
  Binding the arguments to the parameters of \<^verbatim>\<open>call_set_parameters\<close> and running it. An
  argument of another kind than the parameter expects is outside the model and is
  reported as \<open>TypeError\<close>.
\<close>

definition apply_call_set_parameters ::
  "argval arg list
   \<Rightarrow> (error + (string, SetParametersResult) dict) option \<times> SetParameters_Request list" where
  "apply_call_set_parameters args =
     (let pos = positional_args args; kws = keyword_args args in
      if positional_follows_keyword False args \<or> \<not> distinct (map fst kws)
      then (Some (Inl SyntaxError), [])
      else if 1 < length pos
              \<or> (\<exists>k \<in> set (map fst kws).
                    k \<notin> {''self'', ''node'', ''node_name'', ''client'', ''parameters''})
              \<or> (pos \<noteq> [] \<and> map_of kws ''self'' \<noteq> None)
              \<or> (pos = [] \<and> map_of kws ''self'' = None)
              \<or> map_of kws ''node'' = None
      then (Some (Inl TypeError), [])
      else
        (case (map_of kws ''node'',
               case map_of kws ''node_name'' of None \<Rightarrow> ANone | Some a \<Rightarrow> a,
               case map_of kws ''client'' of None \<Rightarrow> ANone | Some a \<Rightarrow> a,
               case map_of kws ''parameters'' of None \<Rightarrow> AParameters [] | Some a \<Rightarrow> a) of
           (Some (ANode n), ANone, ANone, AParameters ps) \<Rightarrow> call_set_parameters () n None None ps
         | (Some (ANode n), AStr nm, ANone, AParameters ps) \<Rightarrow>
             call_set_parameters () n (Some nm) None ps
         | (Some (ANode n), ANone, AClient c, AParameters ps) \<Rightarrow>
             call_set_parameters () n None (Some c) ps
         | (Some (ANode n), AStr nm, AClient c, AParameters ps) \<Rightarrow>
             call_set_parameters () n (Some nm) (Some c) ps
         | _ \<Rightarrow> (Some (Inl TypeError), [])))"

text \<open>
  \<^verbatim>\<open>class ParamDict\<close>, a \<^verbatim>\<open>UserDict\<close>, given by its \<^verbatim>\<open>data\<close>. The arguments \<open>node\<close> and
  \<open>set_parameters\<close> stand for \<^verbatim>\<open>self._pm._node\<close> and \<^verbatim>\<open>self._pm.set_parameters\<close>.
  \<^verbatim>\<open>__setitem__\<close> writes the call as
  \<^verbatim>\<open>call_set_parameters(node=self._pm._node, client=self._pm.set_parameters, [value])\<close>.
  The methods return the outcome, the data after the call and the requests sent. The
  bodies of the methods are followed statement by statement on \<open>data\<close>; the routing of
  attribute access through \<^verbatim>\<open>__getattr__\<close> and \<^verbatim>\<open>__setattr__\<close> is left out.
\<close>

definition ParamDict_getitem :: "(string, Parameter) dict \<Rightarrow> string \<Rightarrow> error + Parameter" where
  "ParamDict_getitem data key =
     (case map_of data key of None \<Rightarrow> Inl KeyError | Some p \<Rightarrow> Inr p)"

definition ParamDict_setitem ::
  "(SetParameters_Request, SetParameters_Response) node
   \<Rightarrow> (SetParameters_Request, SetParameters_Response) client
   \<Rightarrow> (string, Parameter) dict \<Rightarrow> string \<Rightarrow> Parameter
   \<Rightarrow> (error + unit) option \<times> (string, Parameter) dict \<times> SetParameters_Request list" where
  "ParamDict_setitem node set_parameters data key value' =
     (let data' = AList.update key value' data in
      case apply_call_set_parameters
             [Kw ''node'' (ANode node), Kw ''client'' (AClient set_parameters),
              Pos (AParameters [value'])] of
        (None, sent) \<Rightarrow> (None, data', sent)
      | (Some (Inl e), sent) \<Rightarrow> (Some (Inl e), data', sent)
      | (Some (Inr r), sent) \<Rightarrow> (Some (Inr ()), data', sent))"






text \<open>
  Two clients and a node for examples: a service that is available and answers every
  request with \<open>r\<close>, a service that never becomes available, and a node that hands out
  the client \<open>c\<close> for every service name.
\<close>

definition responding_client :: "'resp \<Rightarrow> ('req, 'resp) client" where
  "responding_client r = \<lparr>wait_for_service = (\<lambda>t. True), call = (\<lambda>req. Some r)\<rparr>"

definition unavailable_client :: "('req, 'resp) client" where
  "unavailable_client = \<lparr>wait_for_service = (\<lambda>t. False), call = (\<lambda>req. None)\<rparr>"

definition node_of :: "('req, 'resp) client \<Rightarrow> ('req, 'resp) node" where
  "node_of c = (\<lambda>service. c)"

section \<open>Properties\<close>

subsection \<open>Value inference\<close>

lemma py_int_error: "py_int x = Inl e \<Longrightarrow> e = ValueError"
  by (auto simp: py_int_def split: list.splits if_splits option.splits)

lemma py_float_error: "py_float x = Inl e \<Longrightarrow> e = ValueError"
  by (auto simp: py_float_def parse_unsigned_float_def split: list.splits if_splits option.splits)

lemma to_numeric_error: "to_numeric x = Inl e \<Longrightarrow> e = ValueError"
  by (cases "py_float x"; cases "py_int x")
     (auto simp: to_numeric_def dest: py_int_error py_float_error split: if_splits)




subsection \<open>Loading a parameter file\<close>

lemma parse_param_file_Nil: "parse_param_file v [] = Inr []"
  by (cases v) simp_all

lemma parse_param_file_blank: "parse_param_file v ([] # rest) = Inl IndexError"
  by (cases v) simp_all

lemma parse_param_file_comment:
  "comment_row data \<Longrightarrow> parse_param_file v (data # rest) = parse_param_file v rest"
  by (cases v; cases data) (simp_all add: comment_row_def)

lemma parse_param_file_valid:
  "valid_row v data \<Longrightarrow>
   parse_param_file v (data # rest) =
     (case parse_param_file v rest of
        Inl e \<Rightarrow> Inl e
      | Inr ps \<Rightarrow> Inr (row_parameter v data # ps))"
  by (cases v; cases data)
     (auto simp: comment_row_def valid_row_def row_parameter_def split: sum.splits)

lemma parse_param_file_wrong_count:
  "data \<noteq> [] \<Longrightarrow> \<not> comment_row data \<Longrightarrow> length data \<noteq> field_count v \<Longrightarrow>
   parse_param_file v (data # rest) = Inl ValueError"
  by (cases v; cases data) (simp_all add: comment_row_def)

lemma data_rows_Cons:
  "data_rows v (data # rows) =
     (if comment_row data then data_rows v rows else row_parameter v data # data_rows v rows)"
  by (simp add: data_rows_def)

lemma parse_param_file_prefix:
  "\<forall>data \<in> set pre. comment_row data \<or> valid_row v data \<Longrightarrow>
   parse_param_file v (pre @ rest) =
     (case parse_param_file v rest of
        Inl e \<Rightarrow> Inl e
      | Inr ps \<Rightarrow> Inr (data_rows v pre @ ps))"
proof (induction pre)
  case Nil
  then show ?case by (simp add: data_rows_def split: sum.splits)
next
  case (Cons data pre)
  then have IH: "parse_param_file v (pre @ rest) =
     (case parse_param_file v rest of Inl e \<Rightarrow> Inl e | Inr ps \<Rightarrow> Inr (data_rows v pre @ ps))"
    by simp
  from Cons.prems have "comment_row data \<or> valid_row v data" by simp
  then show ?case
  proof
    assume "comment_row data"
    then show ?thesis
      using IH by (simp add: parse_param_file_comment data_rows_Cons split: sum.splits)
  next
    assume ok: "valid_row v data"
    then have "\<not> comment_row data" by (simp add: valid_row_def)
    then show ?thesis
      using IH ok by (simp add: parse_param_file_valid data_rows_Cons split: sum.splits)
  qed
qed

lemma parse_param_file_all_valid:
  "\<forall>data \<in> set rows. comment_row data \<or> valid_row v data \<Longrightarrow>
   parse_param_file v rows = Inr (data_rows v rows)"
  using parse_param_file_prefix [of rows v "[]"] by (simp add: parse_param_file_Nil)

lemma load_failure_atomic: "fst (load v self rows) = Inl e \<Longrightarrow> snd (load v self rows) = self"
  by (auto simp: load_def split: sum.splits)

lemma load_wrong_field_count:
  assumes "\<forall>r \<in> set pre. comment_row r \<or> valid_row v r"
    and "data \<noteq> []" and "\<not> comment_row data" and "length data \<noteq> field_count v"
  shows "load v self (pre @ data # post) = (Inl ValueError, self)"
  using assms
  by (simp add: load_def parse_param_file_prefix parse_param_file_wrong_count)

lemma dict_by_name_fold: "dict_by_name ps = fold put ps []"
  by (simp add: dict_by_name_def put_def [abs_def])

lemma fold_put_distinct: "distinct (map fst d) \<Longrightarrow> distinct (map fst (fold put ps d))"
  by (induction ps arbitrary: d) (simp_all add: put_def distinct_update)

lemma fold_put_other:
  "\<forall>p \<in> set ps. name p \<noteq> n \<Longrightarrow> map_of (fold put ps d) n = map_of d n"
  by (induction ps arbitrary: d) (auto simp: put_def update_conv')

lemma fold_put_last:
  "\<forall>q \<in> set qs. name q \<noteq> name p \<Longrightarrow>
   map_of (fold put (ps @ p # qs) d) (name p) = Some p"
  by (simp add: fold_put_other) (simp add: put_def update_conv')

lemma one_entry:
  "distinct (map fst d) \<Longrightarrow> map_of d n = Some p \<Longrightarrow> length (filter (\<lambda>kv. fst kv = n) d) = 1"
proof (induction d)
  case Nil
  then show ?case by simp
next
  case (Cons kv d)
  show ?case
  proof (cases "fst kv = n")
    case True
    with Cons.prems have "n \<notin> fst ` set d" by auto
    then have "filter (\<lambda>kv. fst kv = n) d = []"
      by (auto simp: filter_empty_conv)
    with True show ?thesis by simp
  next
    case False
    with Cons show ?thesis by (cases kv) auto
  qed
qed

text \<open>
  C5. A blank line of the file is a row without fields: it is not a comment and its field
  count differs from the 2 or 5 fields the variant requires. On a file that holds one
  blank line, \<open>load\<close> of every variant ends with \<open>IndexError\<close>, raised by \<^verbatim>\<open>data[0]\<close>,
  and not with the \<open>ValueError\<close> of the field-count check.
\<close>

theorem load_blank_line_IndexError:
  "\<not> comment_row [] \<and> length ([] :: row) \<noteq> field_count v
   \<and> load v ParamFile_init [[]] = (Inl IndexError, ParamFile_init)"
  by (cases v) (simp_all add: comment_row_def load_def)

text \<open>
  C9, as stated, fails on a file in which two valid rows carry the same name and a later
  row has the wrong field count: \<open>load\<close> raises.
\<close>

theorem load_duplicates_counterexample:
  "valid_row MavProxyParam [''A'', ''1''] \<and> valid_row MavProxyParam [''A'', ''2'']
   \<and> name (row_parameter MavProxyParam [''A'', ''1''])
       = name (row_parameter MavProxyParam [''A'', ''2''])
   \<and> load MavProxyParam ParamFile_init [[''A'', ''1''], [''A'', ''2''], [''B'']]
       = (Inl ValueError, ParamFile_init)"
  by (simp add: valid_row_def comment_row_def startswith_def row_parameter_def load_def
        to_numeric_def py_int_def py_strip_def py_isspace_def digit_val_def)

text \<open>
  C9, amended. When every row of the file is a comment row or a valid data row, \<open>load\<close>
  of each of the three variants succeeds, the keys of the resulting dict are distinct, and
  for a valid row that no later valid row repeats the name of, the dict holds exactly one
  entry under that name: the parameter of that row.
\<close>

theorem load_last_row_wins:
  assumes "\<forall>r \<in> set (pre @ data # post). comment_row r \<or> valid_row v r"
    and "valid_row v data"
    and "\<forall>r \<in> set post. valid_row v r \<longrightarrow> name (row_parameter v r) \<noteq> name (row_parameter v data)"
  shows "\<exists>d. load v self (pre @ data # post) = (Inr (), self\<lparr>parameters := Some d\<rparr>)
           \<and> distinct (map fst d)
           \<and> map_of d (name (row_parameter v data)) = Some (row_parameter v data)
           \<and> length (filter (\<lambda>kv. fst kv = name (row_parameter v data)) d) = 1"
proof -
  let ?p = "row_parameter v data"
  let ?d = "dict_by_name (data_rows v (pre @ data # post))"
  have parse: "parse_param_file v (pre @ data # post) = Inr (data_rows v (pre @ data # post))"
    using assms(1) by (rule parse_param_file_all_valid)
  have "\<not> comment_row data"
    using assms(2) by (simp add: valid_row_def)
  then have split: "data_rows v (pre @ data # post) = data_rows v pre @ ?p # data_rows v post"
    by (simp add: data_rows_def)
  have "\<forall>q \<in> set (data_rows v post). name q \<noteq> name ?p"
  proof
    fix q assume "q \<in> set (data_rows v post)"
    then obtain r where r: "r \<in> set post" "\<not> comment_row r" "q = row_parameter v r"
      by (auto simp: data_rows_def)
    with assms(1) have "valid_row v r" by auto
    with assms(3) r show "name q \<noteq> name ?p" by simp
  qed
  then have last: "map_of ?d (name ?p) = Some ?p"
    unfolding dict_by_name_fold split by (rule fold_put_last)
  have dist: "distinct (map fst ?d)"
    unfolding dict_by_name_fold by (rule fold_put_distinct) simp
  have "load v self (pre @ data # post) = (Inr (), self\<lparr>parameters := Some ?d\<rparr>)"
    by (simp add: load_def parse)
  with last dist one_entry [OF dist last] show ?thesis by blast
qed

theorem load_last_row_wins_witness:
  "comment_row [''#NOTE:'', ''x''] \<and> valid_row MissionPlannerParam [''A'', ''1'']
   \<and> valid_row MissionPlannerParam [''A'', ''2'']
   \<and> valid_row MissionPlannerParam [''B'', ''3.5'']
   \<and> name (row_parameter MissionPlannerParam [''B'', ''3.5''])
       \<noteq> name (row_parameter MissionPlannerParam [''A'', ''2''])
   \<and> (\<exists>d. load MissionPlannerParam ParamFile_init
              ([[''#NOTE:'', ''x''], [''A'', ''1'']] @ [''A'', ''2''] # [[''B'', ''3.5'']])
            = (Inr (), ParamFile_init\<lparr>parameters := Some d\<rparr>)
          \<and> distinct (map fst d)
          \<and> map_of d ''A'' = Some \<lparr>name = ''A'', value = PInt 2\<rparr>
          \<and> length (filter (\<lambda>kv. fst kv = ''A'') d) = 1)"
proof -
  have ev: "row_parameter MissionPlannerParam [''A'', ''2''] = \<lparr>name = ''A'', value = PInt 2\<rparr>"
    "row_parameter MissionPlannerParam [''B'', ''3.5''] = \<lparr>name = ''B'', value = PFloat (FVal (7 / 2))\<rparr>"
    "comment_row [''#NOTE:'', ''x'']"
    "valid_row MissionPlannerParam [''A'', ''1'']"
    "valid_row MissionPlannerParam [''A'', ''2'']"
    "valid_row MissionPlannerParam [''B'', ''3.5'']"
    by (simp_all add: valid_row_def comment_row_def startswith_def row_parameter_def
          to_numeric_def py_int_def py_float_def py_strip_def py_isspace_def digit_val_def
          parse_unsigned_float_def parse_decimal_def parse_exponent_def to_lower_def
          is_digit_def)
  have h1: "\<forall>r \<in> set ([[''#NOTE:'', ''x''], [''A'', ''1'']] @ [''A'', ''2''] # [[''B'', ''3.5'']]).
      comment_row r \<or> valid_row MissionPlannerParam r"
    using ev by simp
  have h3: "\<forall>r \<in> set [[''B'', ''3.5'']]. valid_row MissionPlannerParam r \<longrightarrow>
         name (row_parameter MissionPlannerParam r)
           \<noteq> name (row_parameter MissionPlannerParam [''A'', ''2''])"
    using ev by simp
  show ?thesis
    using load_last_row_wins [OF h1 ev(5) h3, of ParamFile_init] h1 h3 ev by simp
qed

text \<open>
  C10, as stated, fails on a file whose blank line comes after a row with the wrong field
  count: the parse ends at that row, with \<open>ValueError\<close>.
\<close>

theorem load_blank_row_counterexample:
  "[] \<in> set [[''A'', ''B'', ''C''], []]
   \<and> fst (load MavProxyParam ParamFile_init [[''A'', ''B'', ''C''], []]) = Inl ValueError
   \<and> fst (load MavProxyParam ParamFile_init [[''A'', ''B'', ''C''], []]) \<noteq> Inl IndexError"
  by (simp add: load_def startswith_def)

text \<open>
  C10, amended. When every row before the first row without fields is a comment row or a
  valid data row, \<open>load\<close> of each of the three variants ends with \<open>IndexError\<close> and
  leaves the file object as it was.
\<close>

theorem load_blank_row_IndexError:
  "\<forall>r \<in> set pre. comment_row r \<or> valid_row v r \<Longrightarrow>
   load v self (pre @ [] # post) = (Inl IndexError, self)"
  by (simp add: load_def parse_param_file_prefix parse_param_file_blank)

theorem load_blank_row_IndexError_witness:
  "comment_row [''# MAV ID'', ''COMPONENT ID'']
   \<and> valid_row QGroundControlParam [''1'', ''1'', ''FOO'', ''3'', ''6'']
   \<and> load QGroundControlParam ParamFile_init
        ([[''# MAV ID'', ''COMPONENT ID''], [''1'', ''1'', ''FOO'', ''3'', ''6'']] @ [] # [[''x'']])
      = (Inl IndexError, ParamFile_init)"
proof -
  have rows: "comment_row [''# MAV ID'', ''COMPONENT ID'']"
    "valid_row QGroundControlParam [''1'', ''1'', ''FOO'', ''3'', ''6'']"
    by (simp_all add: valid_row_def comment_row_def startswith_def
          to_numeric_def py_int_def py_strip_def py_isspace_def digit_val_def)
  then have h: "\<forall>r \<in> set [[''# MAV ID'', ''COMPONENT ID''], [''1'', ''1'', ''FOO'', ''3'', ''6'']].
      comment_row r \<or> valid_row QGroundControlParam r"
    by simp
  show ?thesis
    using load_blank_row_IndexError [OF h, of ParamFile_init "[[''x'']]"] rows by simp
qed

subsection \<open>Saving a parameter file\<close>

lemma to_type_kinds:
  "to_type (PFloat f) = Inr 9"
  "to_type (PInt i) = Inr 6"
  "to_type (PStr s) = Inl TypeError"
  "to_type PNone = Inl TypeError"
  by simp_all

lemma QGroundControlParam_data_row_FOO:
  "QGroundControlParam_data_row ParamFile_init (OParameter \<lparr>name = ''FOO'', value = PInt 3\<rparr>)
     = Inr [PInt 1, PInt 1, PStr ''FOO'', PInt 3, PInt 6]"
  "writerow (CSVDialect QGroundControlParam) repr fileobj
       [PInt 1, PInt 1, PStr ''FOO'', PInt 3, PInt 6]
     = Inr (fileobj @ ''1'' @ [CHR 9] @ ''1'' @ [CHR 9] @ ''FOO'' @ [CHR 9] @ ''3'' @ [CHR 9]
            @ ''6'' @ [CHR 10])"
  by (simp_all add: QGroundControlParam_data_row_def ParamFile_init_def writerow_def
        str_int_def str_nat.simps)

lemma getattr_of_key:
  "MavProxyParam_save_rows d repr fileobj (OStr k # ps) = (Inl AttributeError, fileobj)"
  "QGroundControlParam_save_rows repr self fileobj (OStr k # ps) = (Inl AttributeError, fileobj)"
  by (simp_all add: QGroundControlParam_data_row_def)

text \<open>
  C1. \<^verbatim>\<open>MavProxyParam.save\<close>, which the space-delimited and the comma-delimited format
  share, never renders anything: for every file object, time and contents it raises
  \<open>AttributeError\<close> at \<^verbatim>\<open>file_.writerow\<close>, after the time stamp was set and before
  anything is written. In particular this holds for a file object that holds the single
  parameter \<^verbatim>\<open>FOO = 3\<close>, so there is no rendered text to parse back.
\<close>

theorem MavProxyParam_save_AttributeError:
  "MavProxyParam_save v now repr self fileobj = (Inl AttributeError, set_stamp now self, fileobj)
   \<and> MavProxyParam_save MavProxyParam now repr
        (ParamFile_init\<lparr>parameters := Some [(''FOO'', \<lparr>name = ''FOO'', value = PInt 3\<rparr>)]\<rparr>) []
       = (Inl AttributeError,
          ParamFile_init\<lparr>parameters := Some [(''FOO'', \<lparr>name = ''FOO'', value = PInt 3\<rparr>)],
                          stamp := Some now\<rparr>, [])"
  by (simp add: MavProxyParam_save_def TextIO_writerow_def set_stamp_def ParamFile_init_def)

text \<open>
  C6. \<^verbatim>\<open>QGroundControlParam.save\<close> on a file object whose \<^verbatim>\<open>parameters\<close> is the dict
  \<^verbatim>\<open>{"FOO": Parameter("FOO", 3)}\<close>, with target (1, 1): the three header rows are written,
  then the loop takes the key \<^verbatim>\<open>"FOO"\<close> of the dict as \<^verbatim>\<open>p\<close> and \<^verbatim>\<open>p.name\<close> raises
  \<open>AttributeError\<close>; no data row is written.
\<close>

theorem QGroundControlParam_save_dict_AttributeError:
  "QGroundControlParam_save
     \<lparr>year = 2021, month = 6, day = 5, hour = 14, minute = 3, second = 59\<rparr> repr
     (ParamFile_init\<lparr>parameters := Some [(''FOO'', \<lparr>name = ''FOO'', value = PInt 3\<rparr>)]\<rparr>) []
   = (Inl AttributeError,
      ParamFile_init\<lparr>parameters := Some [(''FOO'', \<lparr>name = ''FOO'', value = PInt 3\<rparr>)],
        stamp := Some \<lparr>year = 2021, month = 6, day = 5, hour = 14, minute = 3, second = 59\<rparr>\<rparr>,
      ''# NOTE: 05.06.2021 14:03:59'' @ [CHR 10]
      @ ''# Onboard parameters saved by mavparam for (1.1)'' @ [CHR 10]
      @ ''# MAV ID'' @ [CHR 9] @ ''COMPONENT ID'' @ [CHR 9] @ ''PARAM NAME'' @ [CHR 9]
      @ ''VALUE'' @ [CHR 9] @ ''(TYPE)'' @ [CHR 10])"
  by (simp add: QGroundControlParam_save_def QGroundControlParam_header_def set_stamp_def
        ParamFile_init_def writerow_def strftime_def pad2_def str_int_def str_nat.simps
        iter_dict_def QGroundControlParam_data_row_def)

subsection \<open>Remote calls and the parameter store\<close>

text \<open>
  C8. Each of the four remote calls waits for its service with a timeout of 5 seconds
  (\<open>TIMEOUT\<close> for the three helpers, the default of \<open>timeout_sec\<close> for the pull), raises
  \<open>ServiceWaitTimeout\<close> exactly when the client it uses reports that the service did not
  become available in that time, and has sent no request when it raises so.
\<close>

theorem remote_calls_wait_for_service:
  "TIMEOUT = 5 \<and> timeout_sec ParamPlugin_init = 5
   \<and> (fst (call_list_parameters self1 node1 node_name1 client1 prefixes1)
         = Some (Inl ServiceWaitTimeout)
       \<longleftrightarrow> (\<exists>c. resolve_client node1 node_name1 client1 ''list_parameters'' = Inr c
                \<and> \<not> wait_for_service c TIMEOUT))
   \<and> (fst (call_list_parameters self1 node1 node_name1 client1 prefixes1)
         = Some (Inl ServiceWaitTimeout)
       \<longrightarrow> snd (call_list_parameters self1 node1 node_name1 client1 prefixes1) = [])
   \<and> (fst (call_get_parameters self2 node2 node_name2 client2 names2)
         = Some (Inl ServiceWaitTimeout)
       \<longleftrightarrow> (\<exists>c. resolve_client node2 node_name2 client2 ''get_parameters'' = Inr c
                \<and> \<not> wait_for_service c TIMEOUT))
   \<and> (fst (call_get_parameters self2 node2 node_name2 client2 names2)
         = Some (Inl ServiceWaitTimeout)
       \<longrightarrow> snd (call_get_parameters self2 node2 node_name2 client2 names2) = [])
   \<and> (fst (call_set_parameters self3 node3 node_name3 client3 parameters3)
         = Some (Inl ServiceWaitTimeout)
       \<longleftrightarrow> (\<exists>c. resolve_client node3 node_name3 client3 ''set_parameters'' = Inr c
                \<and> \<not> wait_for_service c TIMEOUT))
   \<and> (fst (call_set_parameters self3 node3 node_name3 client3 parameters3)
         = Some (Inl ServiceWaitTimeout)
       \<longrightarrow> snd (call_set_parameters self3 node3 node_name3 client3 parameters3) = [])
   \<and> (fst (call_pull plugin pull force) = Some (Inl ServiceWaitTimeout)
       \<longleftrightarrow> \<not> wait_for_service pull (timeout_sec plugin))
   \<and> (fst (call_pull plugin pull force) = Some (Inl ServiceWaitTimeout)
       \<longrightarrow> snd (snd (call_pull plugin pull force)) = [])"
proof -
  have list: "(fst (call_list_parameters self1 node1 node_name1 client1 prefixes1)
         = Some (Inl ServiceWaitTimeout)
       \<longleftrightarrow> (\<exists>c. resolve_client node1 node_name1 client1 ''list_parameters'' = Inr c
                \<and> \<not> wait_for_service c TIMEOUT))
     \<and> (fst (call_list_parameters self1 node1 node_name1 client1 prefixes1)
         = Some (Inl ServiceWaitTimeout)
       \<longrightarrow> snd (call_list_parameters self1 node1 node_name1 client1 prefixes1) = [])"
    by (cases "resolve_client node1 node_name1 client1 ''list_parameters''")
       (auto simp: call_list_parameters_def resolve_client_def Let_def
          split: option.splits if_splits)
  have get: "(fst (call_get_parameters self2 node2 node_name2 client2 names2)
         = Some (Inl ServiceWaitTimeout)
       \<longleftrightarrow> (\<exists>c. resolve_client node2 node_name2 client2 ''get_parameters'' = Inr c
                \<and> \<not> wait_for_service c TIMEOUT))
     \<and> (fst (call_get_parameters self2 node2 node_name2 client2 names2)
         = Some (Inl ServiceWaitTimeout)
       \<longrightarrow> snd (call_get_parameters self2 node2 node_name2 client2 names2) = [])"
    by (cases "resolve_client node2 node_name2 client2 ''get_parameters''")
       (auto simp: call_get_parameters_def resolve_client_def Let_def
          split: option.splits if_splits)
  have set: "(fst (call_set_parameters self3 node3 node_name3 client3 parameters3)
         = Some (Inl ServiceWaitTimeout)
       \<longleftrightarrow> (\<exists>c. resolve_client node3 node_name3 client3 ''set_parameters'' = Inr c
                \<and> \<not> wait_for_service c TIMEOUT))
     \<and> (fst (call_set_parameters self3 node3 node_name3 client3 parameters3)
         = Some (Inl ServiceWaitTimeout)
       \<longrightarrow> snd (call_set_parameters self3 node3 node_name3 client3 parameters3) = [])"
    by (cases "resolve_client node3 node_name3 client3 ''set_parameters''")
       (auto simp: call_set_parameters_def resolve_client_def Let_def
          split: option.splits if_splits)
  have pull: "(fst (call_pull plugin pull force) = Some (Inl ServiceWaitTimeout)
       \<longleftrightarrow> \<not> wait_for_service pull (timeout_sec plugin))
     \<and> (fst (call_pull plugin pull force) = Some (Inl ServiceWaitTimeout)
       \<longrightarrow> snd (snd (call_pull plugin pull force)) = [])"
    by (auto simp: call_pull_def Let_def split: if_splits)
  have "TIMEOUT = 5 \<and> timeout_sec ParamPlugin_init = 5"
    by (simp add: TIMEOUT_def ParamPlugin_init_def)
  with list get set pull show ?thesis by blast
qed

theorem remote_calls_wait_for_service_witness:
  "fst (call_list_parameters () (node_of unavailable_client) (Some ''/mavros/param'') None [])
     = Some (Inl ServiceWaitTimeout)
   \<and> snd (call_list_parameters () (node_of unavailable_client) (Some ''/mavros/param'') None [])
     = []
   \<and> fst (call_get_parameters () (node_of unavailable_client) None (Some unavailable_client)
            [''FOO''])
     = Some (Inl ServiceWaitTimeout)
   \<and> snd (call_get_parameters () (node_of unavailable_client) None (Some unavailable_client)
            [''FOO''])
     = []
   \<and> fst (call_set_parameters () (node_of unavailable_client) None (Some unavailable_client)
            [\<lparr>name = ''FOO'', value = PInt 3\<rparr>])
     = Some (Inl ServiceWaitTimeout)
   \<and> snd (call_set_parameters () (node_of unavailable_client) None (Some unavailable_client)
            [\<lparr>name = ''FOO'', value = PInt 3\<rparr>])
     = []
   \<and> fst (call_pull ParamPlugin_init (unavailable_client :: (ParamPull_Request, unit) client)
            False)
     = Some (Inl ServiceWaitTimeout)
   \<and> snd (snd (call_pull ParamPlugin_init
                 (unavailable_client :: (ParamPull_Request, unit) client) False))
     = []"
  using remote_calls_wait_for_service
    [of "()" "node_of unavailable_client" "Some ''/mavros/param''" None "[]"
        "()" "node_of unavailable_client" None "Some unavailable_client" "[''FOO'']"
        "()" "node_of unavailable_client" None "Some unavailable_client"
        "[\<lparr>name = ''FOO'', value = PInt 3\<rparr>]"
        ParamPlugin_init "unavailable_client :: (ParamPull_Request, unit) client" False]
  by (simp add: resolve_client_def unavailable_client_def node_of_def)




lemma apply_call_without_self:
  "positional_args args = [] \<Longrightarrow> map_of (keyword_args args) ''self'' = None \<Longrightarrow>
   apply_call_set_parameters args = (Some (Inl SyntaxError), [])
   \<or> apply_call_set_parameters args = (Some (Inl TypeError), [])"
  by (simp add: apply_call_set_parameters_def Let_def)

lemma ParamDict_setitem_eq:
  "ParamDict_setitem node c data key v = (Some (Inl SyntaxError), AList.update key v data, [])"
  by (simp add: ParamDict_setitem_def apply_call_set_parameters_def)








text \<open>
  C4. For every store, key and parameter, \<^verbatim>\<open>__setitem__\<close> updates the entry of the local
  cache and then sends no request at all: the call of \<^verbatim>\<open>call_set_parameters\<close> puts a
  positional argument after the keyword arguments, which Python rejects, and it passes no
  value for the parameter \<^verbatim>\<open>self\<close> of that function. The call
  \<^verbatim>\<open>store["A"] = Parameter("A", 1)\<close> on the empty store, with a service that is available,
  is one instance.
\<close>

theorem ParamDict_setitem_sends_nothing:
  "ParamDict_setitem node c data key v = (Some (Inl SyntaxError), AList.update key v data, [])
   \<and> ParamDict_setitem (node_of (responding_client \<lparr>results = []\<rparr>))
        (responding_client \<lparr>results = []\<rparr>) [] ''A'' \<lparr>name = ''A'', value = PInt 1\<rparr>
      = (Some (Inl SyntaxError), [(''A'', \<lparr>name = ''A'', value = PInt 1\<rparr>)], [])"
  by (simp add: ParamDict_setitem_eq)

end
